theory Spec2Isabelle
  imports Main
begin

section \<open>Request members and the validator functions\<close>

text \<open>
  The handlers of \<^verbatim>\<open>server.js\<close> read members of \<^verbatim>\<open>req.body\<close> and
  \<^verbatim>\<open>req.params\<close>. A body member is a string or is absent (\<^verbatim>\<open>undefined\<close>):
  \<open>string option\<close>. A path parameter of a matched route is always a string. A character
  stands for one code unit below 256; JSON members of other types (numbers, arrays) are
  outside this model.

  The validation chains are built from four functions of the validator library, applied
  in the order the chain lists them:
  \<^item> \<^verbatim>\<open>toString\<close>: every standard validator and sanitizer first turns its input into a
    string; an absent member becomes the empty string. A chain that is not marked
    \<^verbatim>\<open>optional()\<close> (none in this file is) runs on absent members too.
  \<^item> \<^verbatim>\<open>trim()\<close>: removes the leading and the trailing run of whitespace
    (the regular expression class \<^verbatim>\<open>\s\<close>).
  \<^item> \<^verbatim>\<open>isLength({min, max})\<close>: the length is between the bounds, both included
    (surrogate pairs and variation selectors, which the library counts as one, do not occur
    among code units below 256).
  \<^item> \<^verbatim>\<open>escape()\<close>: replaces the ampersand, the double and the single quote, the
    angle brackets, the slash, the backslash and the backquote by HTML entities.
\<close>

definition toString :: "string option \<Rightarrow> string" where
  "toString v = (case v of None \<Rightarrow> [] | Some s \<Rightarrow> s)"

definition whitespace :: "char \<Rightarrow> bool" where
  "whitespace c =
     (c = CHR 0x09 \<or> c = CHR 0x0A \<or> c = CHR 0x0B \<or> c = CHR 0x0C \<or> c = CHR 0x0D \<or>
      c = CHR 0x20 \<or> c = CHR 0xA0)"

definition trim :: "string \<Rightarrow> string" where
  "trim s = rev (dropWhile whitespace (rev (dropWhile whitespace s)))"

definition isLength :: "string \<Rightarrow> nat \<Rightarrow> nat \<Rightarrow> bool" where
  "isLength s mn mx = (mn \<le> length s \<and> length s \<le> mx)"

definition escape_char :: "char \<Rightarrow> string" where
  "escape_char c =
     (if c = CHR ''&'' then ''&amp;''
      else if c = CHR 0x22 then ''&quot;''
      else if c = CHR 0x27 then ''&#x27;''
      else if c = CHR ''<'' then ''&lt;''
      else if c = CHR ''>'' then ''&gt;''
      else if c = CHR ''/'' then ''&#x2F;''
      else if c = CHR 0x5C then ''&#x5C;''
      else if c = CHR 0x60 then ''&#96;''
      else [c])"

definition escape :: "string \<Rightarrow> string" where
  "escape s = concat (map escape_char s)"

text \<open>
  JavaScript truthiness of a member that is absent or a string, as
  \<^verbatim>\<open>if (companyName)\<close> and \<^verbatim>\<open>!companyName\<close> read it: absent and the empty string
  are falsy.
\<close>

definition truthy :: "string option \<Rightarrow> bool" where
  "truthy v = (case v of None \<Rightarrow> False | Some s \<Rightarrow> s \<noteq> [])"

section \<open>Validation results and responses\<close>

datatype location = Body | Params

text \<open>
  One entry of \<^verbatim>\<open>validationResult(req).array()\<close>: where the member was read, its
  name and the message of the validator that failed. The entry's copy of the offending
  input is not modelled.
\<close>

record verror =
  location :: location
  field :: string
  message :: string

text \<open>The three JSON bodies the handlers send.\<close>

datatype json_body =
    Message string
  | Error string
  | Errors "verror list"

text \<open>
  What a handler does, in order: it leases a connection from the pool, sends a statement
  with its bound parameters, sends the response, releases the connection; or its promise
  rejects with an error that no \<^verbatim>\<open>catch\<close> of the handler sees. Calls of
  \<^verbatim>\<open>console.error\<close> are not recorded.
\<close>

datatype event =
    Acquire
  | Query string "string list"
  | Respond nat json_body
  | Release
  | Throw string

record query_result =
  affectedRows :: nat
  warningStatus :: nat

text \<open>
  The store behind \<^verbatim>\<open>connection.query(sql, values)\<close>: from the statement text, the
  bound parameters and the store's state it yields the new state and either the driver's
  result object or an error (the promise rejects). The handlers are defined for every
  such store.
\<close>

type_synonym 's store = "string \<Rightarrow> string list \<Rightarrow> 's \<Rightarrow> (string + query_result) \<times> 's"

text \<open>
  The chains \<^verbatim>\<open>body(name).trim().isLength({min, max}).escape()\<close> and
  \<^verbatim>\<open>param(name).trim().isLength({min, max}).escape().withMessage(m)\<close>: the length
  is checked on the trimmed input, before escaping; the member of the request is replaced
  by the trimmed and escaped string. \<^verbatim>\<open>withMessage\<close> names the message of the last
  validator before it, which is \<^verbatim>\<open>isLength\<close>; without it the message is
  \<^verbatim>\<open>Invalid value\<close>.
\<close>

definition sanitized :: "string option \<Rightarrow> string" where
  "sanitized v = escape (trim (toString v))"

definition check_length :: "location \<Rightarrow> string \<Rightarrow> nat \<Rightarrow> nat \<Rightarrow> string \<Rightarrow> string option \<Rightarrow> verror list" where
  "check_length loc name mn mx m v =
     (if isLength (trim (toString v)) mn mx then []
      else [\<lparr>location = loc, field = name, message = m\<rparr>])"

text \<open>
  \<^verbatim>\<open>param('custCode').isLength({min: 6, max: 6}).withMessage(...)\<close>: no sanitizer.
\<close>

definition check_custCode :: "string \<Rightarrow> verror list" where
  "check_custCode custCode =
     (if isLength (toString (Some custCode)) 6 6 then []
      else [\<lparr>location = Params, field = ''custCode'',
             message = ''Customer code must be 6 characters long''\<rparr>])"

section \<open>The connection provider\<close>

text \<open>
  \<^verbatim>\<open>connectToDatabase\<close>: the pool's connection, or the error thrown in its place when
  \<^verbatim>\<open>pool.getConnection()\<close> rejects.
\<close>

definition connectToDatabase :: "bool \<Rightarrow> string + unit" where
  "connectToDatabase getConnection =
     (if getConnection then Inr () else Inl ''Internal server error'')"

section \<open>The handlers\<close>

definition insert_sql :: string where
  "insert_sql = ''INSERT INTO company (COMPANY_ID, COMPANY_NAME, COMPANY_CITY) VALUES (?, ?, ?)''"

definition upsert_sql :: string where
  "upsert_sql = ''INSERT INTO company (COMPANY_ID, COMPANY_NAME, COMPANY_CITY) VALUES (?, ?, ?) ON DUPLICATE KEY UPDATE COMPANY_NAME = ?, COMPANY_CITY = ?''"

definition delete_sql :: string where
  "delete_sql = ''DELETE FROM customer WHERE CUST_CODE = ?''"

text \<open>The errors of the three chains of \<^verbatim>\<open>POST /api/company\<close>, in the chains' order.\<close>

definition validate_post :: "string option \<Rightarrow> string option \<Rightarrow> string option \<Rightarrow> verror list" where
  "validate_post companyId companyName companyCity =
     check_length Body ''companyId'' 1 6 ''Invalid value'' companyId @
     check_length Body ''companyName'' 1 25 ''Invalid value'' companyName @
     check_length Body ''companyCity'' 1 25 ''Invalid value'' companyCity"

text \<open>
  The errors of the three chains of \<^verbatim>\<open>PATCH\<close> and of \<^verbatim>\<open>PUT /api/company/:companyId\<close>
  (the two routes list the same chains).
\<close>

definition validate_keyed :: "string \<Rightarrow> string option \<Rightarrow> string option \<Rightarrow> verror list" where
  "validate_keyed companyId companyName companyCity =
     check_length Params ''companyId'' 1 6 ''ID must be between 1 and 6 characters'' (Some companyId) @
     check_length Body ''companyName'' 1 25 ''Invalid value'' companyName @
     check_length Body ''companyCity'' 1 25 ''Invalid value'' companyCity"

text \<open>
  \<^verbatim>\<open>app.post("/api/company", ...)\<close>. The chains run before the handler; the handler
  leases the connection first and reads the validation result next.
\<close>

definition post_company :: "'s store \<Rightarrow> bool \<Rightarrow> string option \<Rightarrow> string option \<Rightarrow> string option \<Rightarrow> 's \<Rightarrow> 's \<times> event list" where
  "post_company db getConnection companyId companyName companyCity s =
     (case connectToDatabase getConnection of
        Inl err \<Rightarrow> (s, [Throw err])
      | Inr connection \<Rightarrow>
          (let errors = validate_post companyId companyName companyCity in
           if errors \<noteq> [] then (s, [Acquire, Respond 400 (Errors errors)])
           else
             (let vals = [sanitized companyId, sanitized companyName, sanitized companyCity] in
              case db insert_sql vals s of
                (Inr result, s') \<Rightarrow>
                  (s', [Acquire, Query insert_sql vals,
                        Respond 201 (Message ''Company successfully added''), Release])
              | (Inl err, s') \<Rightarrow>
                  (s', [Acquire, Query insert_sql vals,
                        Respond 500 (Error ''Server error''), Release]))))"

text \<open>\<^verbatim>\<open>updateFields.join(", ")\<close>.\<close>

fun join :: "string \<Rightarrow> string list \<Rightarrow> string" where
  "join sep [] = []"
| "join sep [x] = x"
| "join sep (x # y # ys) = x @ sep @ join sep (y # ys)"

text \<open>
  The statement and the bound parameters of the partial update (the body of the
  \<^verbatim>\<open>try\<close> of the PATCH handler up to the call of \<^verbatim>\<open>connection.query\<close>).
\<close>

definition build_update :: "string option \<Rightarrow> string option \<Rightarrow> string \<Rightarrow> string \<times> string list" where
  "build_update companyName companyCity companyId =
     (let updateFields = [];
          vals = [];
          updateFields = (if truthy companyName then updateFields @ [''COMPANY_NAME = ?''] else updateFields);
          vals = (if truthy companyName then vals @ [toString companyName] else vals);
          updateFields = (if truthy companyCity then updateFields @ [''COMPANY_CITY = ?''] else updateFields);
          vals = (if truthy companyCity then vals @ [toString companyCity] else vals);
          query = ''UPDATE company SET '' @ join '', '' updateFields @ '' WHERE COMPANY_ID = ?'';
          vals = vals @ [companyId]
      in (query, vals))"

text \<open>
  \<^verbatim>\<open>app.patch("/api/company/:companyId", ...)\<close>. After the chains have run, the members
  of the request hold the sanitized strings.
\<close>

definition patch_company :: "'s store \<Rightarrow> bool \<Rightarrow> string \<Rightarrow> string option \<Rightarrow> string option \<Rightarrow> 's \<Rightarrow> 's \<times> event list" where
  "patch_company db getConnection companyId0 companyName0 companyCity0 s =
     (case connectToDatabase getConnection of
        Inl err \<Rightarrow> (s, [Throw err])
      | Inr connection \<Rightarrow>
          (let errors = validate_keyed companyId0 companyName0 companyCity0 in
           if errors \<noteq> [] then (s, [Acquire, Respond 400 (Errors errors)])
           else
             (let companyId = sanitized (Some companyId0);
                  companyName = Some (sanitized companyName0);
                  companyCity = Some (sanitized companyCity0)
              in
              if \<not> truthy companyName \<and> \<not> truthy companyCity then
                (s, [Acquire, Respond 400
                       (Error ''Provide at least one field to update (companyName or companyCity)'')])
              else
                (case build_update companyName companyCity companyId of
                   (query, vals) \<Rightarrow>
                     (case db query vals s of
                        (Inr result, s') \<Rightarrow>
                          if affectedRows result = 0 then
                            (s', [Acquire, Query query vals,
                                  Respond 404 (Error ''Company not found''), Release])
                          else
                            (s', [Acquire, Query query vals,
                                  Respond 200 (Message ''Company updated successfully''), Release])
                      | (Inl err, s') \<Rightarrow>
                          (s', [Acquire, Query query vals,
                                Respond 500 (Error ''Server error''), Release]))))))"

text \<open>\<^verbatim>\<open>app.put("/api/company/:companyId", ...)\<close>: the upsert.\<close>

definition put_values :: "string \<Rightarrow> string option \<Rightarrow> string option \<Rightarrow> string list" where
  "put_values companyId companyName companyCity =
     [sanitized (Some companyId), sanitized companyName, sanitized companyCity,
      sanitized companyName, sanitized companyCity]"

definition put_company :: "'s store \<Rightarrow> bool \<Rightarrow> string \<Rightarrow> string option \<Rightarrow> string option \<Rightarrow> 's \<Rightarrow> 's \<times> event list" where
  "put_company db getConnection companyId companyName companyCity s =
     (case connectToDatabase getConnection of
        Inl err \<Rightarrow> (s, [Throw err])
      | Inr connection \<Rightarrow>
          (let errors = validate_keyed companyId companyName companyCity in
           if errors \<noteq> [] then (s, [Acquire, Respond 400 (Errors errors)])
           else
             (let vals = put_values companyId companyName companyCity in
              case db upsert_sql vals s of
                (Inr result, s') \<Rightarrow>
                  if affectedRows result = 1 \<and> warningStatus result = 0 then
                    (s', [Acquire, Query upsert_sql vals,
                          Respond 201 (Message ''Company added''), Release])
                  else
                    (s', [Acquire, Query upsert_sql vals,
                          Respond 200 (Message ''Company updated''), Release])
              | (Inl err, s') \<Rightarrow>
                  (s', [Acquire, Query upsert_sql vals,
                        Respond 500 (Error ''Server error''), Release]))))"

text \<open>\<^verbatim>\<open>app.delete('/api/customers/:custCode', ...)\<close>.\<close>

definition delete_customer :: "'s store \<Rightarrow> bool \<Rightarrow> string \<Rightarrow> 's \<Rightarrow> 's \<times> event list" where
  "delete_customer db getConnection custCode s =
     (case connectToDatabase getConnection of
        Inl err \<Rightarrow> (s, [Throw err])
      | Inr connection \<Rightarrow>
          (let errors = check_custCode custCode in
           if errors \<noteq> [] then (s, [Acquire, Respond 400 (Errors errors)])
           else
             (case db delete_sql [custCode] s of
                (Inr result, s') \<Rightarrow>
                  if affectedRows result = 0 then
                    (s', [Acquire, Query delete_sql [custCode],
                          Respond 404 (Error ''Customer not found''), Release])
                  else
                    (s', [Acquire, Query delete_sql [custCode],
                          Respond 200 (Message ''Customer deleted successfully''), Release])
              | (Inl err, s') \<Rightarrow>
                  (s', [Acquire, Query delete_sql [custCode],
                        Respond 500 (Error ''Internal server error''), Release]))))"

text \<open>
  Readings of a run: the responses it sent, the statements it sent to the store, and how
  often it released the connection.
\<close>

definition responses :: "event list \<Rightarrow> (nat \<times> json_body) list" where
  "responses evs = concat (map (\<lambda>e. case e of Respond st b \<Rightarrow> [(st, b)] | _ \<Rightarrow> []) evs)"

definition queries :: "event list \<Rightarrow> (string \<times> string list) list" where
  "queries evs = concat (map (\<lambda>e. case e of Query q v \<Rightarrow> [(q, v)] | _ \<Rightarrow> []) evs)"

definition releases :: "event list \<Rightarrow> nat" where
  "releases evs = length (filter (\<lambda>e. e = Release) evs)"

text \<open>
  A run that ended in the rejection of the request for the validation errors \<open>errors\<close>:
  the connection was leased first, the one response is 400 with the whole list, no
  statement was sent and the store is as it was.
\<close>

definition rejected_with :: "verror list \<Rightarrow> 's \<Rightarrow> 's \<times> event list \<Rightarrow> bool" where
  "rejected_with errors s r =
     (fst r = s \<and> take 1 (snd r) = [Acquire] \<and>
      responses (snd r) = [(400, Errors errors)] \<and> queries (snd r) = [])"

section \<open>The company table\<close>

text \<open>
  Modelled from the spec: the company table of the relational store and its execution of
  the upsert statement. The engine and its schema are not part of the repository. The spec
  gives a company as a key with two attributes, the key unique in the table, and the upsert
  as the statement that "inserts the full row if the key is absent, or overwrites both
  attribute columns if the key is already present". The columns carry the names of the
  statement text; the five parameters are read in the order of its placeholders. What the
  result object reports is left open (\<open>report\<close>); statements other than the upsert are
  not modelled and fail.
\<close>

record company =
  COMPANY_ID :: string
  COMPANY_NAME :: string
  COMPANY_CITY :: string

definition upsert :: "string \<Rightarrow> string \<Rightarrow> string \<Rightarrow> string \<Rightarrow> string \<Rightarrow> company list \<Rightarrow> company list" where
  "upsert k n c n' c' tab =
     (if k \<in> set (map COMPANY_ID tab)
      then map (\<lambda>r. if COMPANY_ID r = k then r\<lparr>COMPANY_NAME := n', COMPANY_CITY := c'\<rparr> else r) tab
      else tab @ [\<lparr>COMPANY_ID = k, COMPANY_NAME = n, COMPANY_CITY = c\<rparr>])"

definition company_store :: "(company list \<Rightarrow> string list \<Rightarrow> query_result) \<Rightarrow> company list store" where
  "company_store report sql vals tab =
     (if sql = upsert_sql then
        (case vals of
           [k, n, c, n', c'] \<Rightarrow> (Inr (report tab vals), upsert k n c n' c' tab)
         | _ \<Rightarrow> (Inl ''parameter count'', tab))
      else (Inl ''statement not modelled'', tab))"


section \<open>Properties of the validators\<close>

lemma escape_char_nonempty: "escape_char c \<noteq> []"
  by (simp add: escape_char_def)

lemma escape_empty_iff: "escape s = [] \<longleftrightarrow> s = []"
  by (cases s) (simp_all add: escape_def escape_char_nonempty)

lemma check_length_empty_iff:
  "check_length loc name mn mx m v = [] \<longleftrightarrow> isLength (trim (toString v)) mn mx"
  by (simp add: check_length_def)

lemma sanitized_truthy:
  "isLength (trim (toString v)) 1 mx \<Longrightarrow> truthy (Some (sanitized v))"
  by (auto simp add: truthy_def sanitized_def escape_empty_iff isLength_def)

lemma validate_keyed_empty_iff:
  "validate_keyed k n c = [] \<longleftrightarrow>
     isLength (trim k) 1 6 \<and> isLength (trim (toString n)) 1 25 \<and>
     isLength (trim (toString c)) 1 25"
  by (simp add: validate_keyed_def check_length_empty_iff toString_def)

lemma validate_keyed_truthy:
  assumes "validate_keyed k n c = []"
  shows "truthy (Some (sanitized n))" and "truthy (Some (sanitized c))"
  using assms by (auto simp add: validate_keyed_empty_iff intro: sanitized_truthy)

text \<open>Requests used as concrete inputs below.\<close>

lemma valid_C1_Acme_NY: "validate_keyed ''C1'' (Some ''Acme'') (Some ''NY'') = []"
  by (simp add: validate_keyed_def check_length_def isLength_def trim_def toString_def
      whitespace_def)

lemma sanitized_C1_Acme_NY:
  "sanitized (Some ''C1'') = ''C1''" "sanitized (Some ''Acme'') = ''Acme''"
  "sanitized (Some ''NY'') = ''NY''"
  by (simp_all add: sanitized_def escape_def escape_char_def trim_def toString_def whitespace_def)

lemma valid_custCode_C00001: "check_custCode ''C00001'' = []"
  by (simp add: check_custCode_def isLength_def toString_def)

lemma invalid_post_absent:
  "validate_post None None None =
     [\<lparr>location = Body, field = ''companyId'', message = ''Invalid value''\<rparr>,
      \<lparr>location = Body, field = ''companyName'', message = ''Invalid value''\<rparr>,
      \<lparr>location = Body, field = ''companyCity'', message = ''Invalid value''\<rparr>]"
  by (simp add: validate_post_def check_length_def isLength_def trim_def toString_def)

lemma invalid_keyed_blank:
  "validate_keyed ''C1'' (Some ''  '') (Some ''NY'') =
     [\<lparr>location = Body, field = ''companyName'', message = ''Invalid value''\<rparr>]"
  by (simp add: validate_keyed_def check_length_def isLength_def trim_def toString_def
      whitespace_def)

lemma invalid_keyed_no_city:
  "validate_keyed ''C1'' (Some ''Acme'') None =
     [\<lparr>location = Body, field = ''companyCity'', message = ''Invalid value''\<rparr>]"
  by (simp add: validate_keyed_def check_length_def isLength_def trim_def toString_def
      whitespace_def)

lemma invalid_keyed_no_attribute:
  "validate_keyed ''C1'' None None =
     [\<lparr>location = Body, field = ''companyName'', message = ''Invalid value''\<rparr>,
      \<lparr>location = Body, field = ''companyCity'', message = ''Invalid value''\<rparr>]"
  by (simp add: validate_keyed_def check_length_def isLength_def trim_def toString_def
      whitespace_def)

lemma invalid_custCode_AB:
  "check_custCode ''AB'' =
     [\<lparr>location = Params, field = ''custCode'',
       message = ''Customer code must be 6 characters long''\<rparr>]"
  by (simp add: check_custCode_def isLength_def toString_def)

section \<open>Runs that validation rejects\<close>

text \<open>
  The four handlers on a request with validation errors, once the pool has handed out a
  connection: the handler returns from the \<^verbatim>\<open>if (!errors.isEmpty())\<close> branch, which
  stands before the \<^verbatim>\<open>try\<close>.
\<close>

lemma rejected_run:
  "validate_post a b c \<noteq> [] \<Longrightarrow>
     post_company db True a b c s = (s, [Acquire, Respond 400 (Errors (validate_post a b c))])"
  "validate_keyed k n c' \<noteq> [] \<Longrightarrow>
     patch_company db True k n c' s = (s, [Acquire, Respond 400 (Errors (validate_keyed k n c'))])"
  "validate_keyed k n c' \<noteq> [] \<Longrightarrow>
     put_company db True k n c' s = (s, [Acquire, Respond 400 (Errors (validate_keyed k n c'))])"
  "check_custCode cc \<noteq> [] \<Longrightarrow>
     delete_customer db True cc s = (s, [Acquire, Respond 400 (Errors (check_custCode cc))])"
  by (simp_all add: post_company_def patch_company_def put_company_def delete_customer_def
      connectToDatabase_def Let_def)

lemma rejected_with_run: "rejected_with errors s (s, [Acquire, Respond 400 (Errors errors)])"
  by (simp add: rejected_with_def responses_def queries_def)

text \<open>
  When the pool hands out no connection, \<^verbatim>\<open>connectToDatabase\<close> throws outside every
  \<^verbatim>\<open>try\<close> of the handler: nothing is sent and nothing reaches the store.
\<close>

lemma connection_failure_run:
  "post_company db False a b c s = (s, [Throw ''Internal server error''])"
  "patch_company db False k n c' s = (s, [Throw ''Internal server error''])"
  "put_company db False k n c' s = (s, [Throw ''Internal server error''])"
  "delete_customer db False cc s = (s, [Throw ''Internal server error''])"
  by (simp_all add: post_company_def patch_company_def put_company_def delete_customer_def
      connectToDatabase_def)

section \<open>The outcome of the upsert\<close>





section \<open>The outcome of the keyed mutations\<close>

lemma build_update_both:
  "truthy (Some n) \<Longrightarrow> truthy (Some c) \<Longrightarrow>
   build_update (Some n) (Some c) k =
     (''UPDATE company SET COMPANY_NAME = ?, COMPANY_CITY = ? WHERE COMPANY_ID = ?'', [n, c, k])"
  by (simp add: build_update_def toString_def)

text \<open>
  Claim C7. For the partial update of a company and the deletion of a customer, with
  validated fields, a leased connection and a statement the store executed: a result of
  zero affected rows is answered 404, a result of one or more affected rows is answered 200
  with the update message, respectively the deletion message.
\<close>

theorem keyed_mutation_reconcile:
  assumes "validate_keyed companyId companyName companyCity = []"
    and "build_update (Some (sanitized companyName)) (Some (sanitized companyCity))
           (sanitized (Some companyId)) = (query, vals)"
    and "db query vals s = (Inr result, s')"
    and "check_custCode custCode = []"
    and "db2 delete_sql [custCode] t = (Inr result2, t')"
  shows "responses (snd (patch_company db True companyId companyName companyCity s)) =
           [if affectedRows result = 0 then (404, Error ''Company not found'')
            else (200, Message ''Company updated successfully'')] \<and>
         responses (snd (delete_customer db2 True custCode t)) =
           [if affectedRows result2 = 0 then (404, Error ''Customer not found'')
            else (200, Message ''Customer deleted successfully'')]"
proof -
  have "truthy (Some (sanitized companyName))" "truthy (Some (sanitized companyCity))"
    using validate_keyed_truthy[OF assms(1)] by simp_all
  then have "responses (snd (patch_company db True companyId companyName companyCity s)) =
           [if affectedRows result = 0 then (404, Error ''Company not found'')
            else (200, Message ''Company updated successfully'')]"
    using assms(1-3)
    by (simp add: patch_company_def connectToDatabase_def Let_def responses_def)
  moreover have "responses (snd (delete_customer db2 True custCode t)) =
           [if affectedRows result2 = 0 then (404, Error ''Customer not found'')
            else (200, Message ''Customer deleted successfully'')]"
    using assms(4,5)
    by (simp add: delete_customer_def connectToDatabase_def Let_def responses_def)
  ultimately show ?thesis by simp
qed

theorem keyed_mutation_reconcile_witness:
  "responses (snd (patch_company (\<lambda>q v s. (Inr \<lparr>affectedRows = 0, warningStatus = 0\<rparr>, s)) True
      ''C1'' (Some ''Acme'') (Some ''NY'') ())) = [(404, Error ''Company not found'')] \<and>
   responses (snd (delete_customer (\<lambda>q v s. (Inr \<lparr>affectedRows = 1, warningStatus = 0\<rparr>, s)) True
      ''C00001'' ())) = [(200, Message ''Customer deleted successfully'')]"
  using
    keyed_mutation_reconcile[of "''C1''" "Some ''Acme''" "Some ''NY''"
      "''UPDATE company SET COMPANY_NAME = ?, COMPANY_CITY = ? WHERE COMPANY_ID = ?''"
      "[''Acme'', ''NY'', ''C1'']"
      "\<lambda>q v s. (Inr \<lparr>affectedRows = 0, warningStatus = 0\<rparr>, s)" "()"
      "\<lparr>affectedRows = 0, warningStatus = 0\<rparr>" "()" "''C00001''"
      "\<lambda>q v s. (Inr \<lparr>affectedRows = 1, warningStatus = 0\<rparr>, s)" "()"
      "\<lparr>affectedRows = 1, warningStatus = 0\<rparr>" "()"]
    valid_C1_Acme_NY valid_custCode_C00001
  by (simp add: sanitized_C1_Acme_NY build_update_both truthy_def)

section \<open>The statement of the partial update\<close>

lemma build_update_cases:
  "build_update n c k =
     (if truthy n then
        if truthy c then (''UPDATE company SET COMPANY_NAME = ?, COMPANY_CITY = ? WHERE COMPANY_ID = ?'', [toString n, toString c, k])
        else (''UPDATE company SET COMPANY_NAME = ? WHERE COMPANY_ID = ?'', [toString n, k])
      else
        if truthy c then (''UPDATE company SET COMPANY_CITY = ? WHERE COMPANY_ID = ?'', [toString c, k])
        else (''UPDATE company SET  WHERE COMPANY_ID = ?'', [k]))"
  by (simp add: build_update_def)

lemma truthy_present: "v \<noteq> Some [] \<Longrightarrow> truthy v = (v \<noteq> None)"
  by (cases v) (simp_all add: truthy_def)

text \<open>
  Claim C8. The statement text of the partial update is a function only of which attribute
  members are present, never of their values. Validated members are never the empty
  string, so for them the handler's truthiness test is the presence test: two validated
  member sets with the same presence pattern give the same text (whatever the values and
  the key), the text is one of four constants, and the values are exactly the bound
  parameters, the present attributes in the order name, city, then the key.
\<close>

theorem build_update_text_by_presence:
  assumes "n \<noteq> Some []" and "c \<noteq> Some []" and "n' \<noteq> Some []" and "c' \<noteq> Some []"
    and "(n = None) = (n' = None)" and "(c = None) = (c' = None)"
  shows "fst (build_update n c k) = fst (build_update n' c' k') \<and>
         fst (build_update n c k) \<in> set
           [''UPDATE company SET COMPANY_NAME = ?, COMPANY_CITY = ? WHERE COMPANY_ID = ?'',
            ''UPDATE company SET COMPANY_NAME = ? WHERE COMPANY_ID = ?'',
            ''UPDATE company SET COMPANY_CITY = ? WHERE COMPANY_ID = ?'',
            ''UPDATE company SET  WHERE COMPANY_ID = ?''] \<and>
         snd (build_update n c k) =
           (case n of None \<Rightarrow> [] | Some x \<Rightarrow> [x]) @ (case c of None \<Rightarrow> [] | Some y \<Rightarrow> [y]) @ [k]"
proof -
  have t: "truthy n = (n \<noteq> None)" "truthy c = (c \<noteq> None)"
          "truthy n' = (n' \<noteq> None)" "truthy c' = (c' \<noteq> None)"
    using assms(1-4) by (simp_all add: truthy_present)
  have "fst (build_update n c k) = fst (build_update n' c' k')"
    using assms(5,6) by (simp add: build_update_cases t)
  moreover have "fst (build_update n c k) \<in> set
           [''UPDATE company SET COMPANY_NAME = ?, COMPANY_CITY = ? WHERE COMPANY_ID = ?'',
            ''UPDATE company SET COMPANY_NAME = ? WHERE COMPANY_ID = ?'',
            ''UPDATE company SET COMPANY_CITY = ? WHERE COMPANY_ID = ?'',
            ''UPDATE company SET  WHERE COMPANY_ID = ?'']"
    by (simp add: build_update_cases)
  moreover have "snd (build_update n c k) =
           (case n of None \<Rightarrow> [] | Some x \<Rightarrow> [x]) @ (case c of None \<Rightarrow> [] | Some y \<Rightarrow> [y]) @ [k]"
    by (simp add: build_update_cases t toString_def split: option.splits)
  ultimately show ?thesis by simp
qed

theorem build_update_text_by_presence_witness:
  "fst (build_update (Some ''Acme'') None ''C1'') = fst (build_update (Some ''Initech'') None ''C2'') \<and>
   fst (build_update (Some ''Acme'') None ''C1'') = ''UPDATE company SET COMPANY_NAME = ? WHERE COMPANY_ID = ?'' \<and>
   snd (build_update (Some ''Acme'') None ''C1'') = [''Acme'', ''C1'']"
  using build_update_text_by_presence[of "Some ''Acme''" None "Some ''Initech''" None "''C1''" "''C2''"]
  by (simp add: build_update_cases truthy_def)

section \<open>The list of validation errors\<close>

text \<open>
  Claim C6. When validation fails, the body of the 400 response is the list of all
  failures: one entry for each member whose rule failed, in the order of the chains
  (companyId, companyName, companyCity), for the creation, the partial update and the
  upsert alike. A request in which several rules fail gets all of them, not the first.
\<close>

theorem validation_errors_collected:
  assumes "validate_post a b c \<noteq> []" and "validate_keyed k n c' \<noteq> []"
  shows "responses (snd (post_company db True a b c s)) =
           [(400, Errors
              ((if isLength (trim (toString a)) 1 6 then []
                else [\<lparr>location = Body, field = ''companyId'', message = ''Invalid value''\<rparr>]) @
               (if isLength (trim (toString b)) 1 25 then []
                else [\<lparr>location = Body, field = ''companyName'', message = ''Invalid value''\<rparr>]) @
               (if isLength (trim (toString c)) 1 25 then []
                else [\<lparr>location = Body, field = ''companyCity'', message = ''Invalid value''\<rparr>])))] \<and>
         responses (snd (patch_company db True k n c' s)) =
           [(400, Errors
              ((if isLength (trim k) 1 6 then []
                else [\<lparr>location = Params, field = ''companyId'',
                       message = ''ID must be between 1 and 6 characters''\<rparr>]) @
               (if isLength (trim (toString n)) 1 25 then []
                else [\<lparr>location = Body, field = ''companyName'', message = ''Invalid value''\<rparr>]) @
               (if isLength (trim (toString c')) 1 25 then []
                else [\<lparr>location = Body, field = ''companyCity'', message = ''Invalid value''\<rparr>])))] \<and>
         responses (snd (put_company db True k n c' s)) =
           responses (snd (patch_company db True k n c' s))"
proof -
  have p: "post_company db True a b c s = (s, [Acquire, Respond 400 (Errors (validate_post a b c))])"
    using assms(1) by (simp add: post_company_def connectToDatabase_def Let_def)
  have q: "patch_company db True k n c' s = (s, [Acquire, Respond 400 (Errors (validate_keyed k n c'))])"
    using assms(2) by (simp add: patch_company_def connectToDatabase_def Let_def)
  have r: "put_company db True k n c' s = (s, [Acquire, Respond 400 (Errors (validate_keyed k n c'))])"
    using assms(2) by (simp add: put_company_def connectToDatabase_def Let_def)
  show ?thesis
    unfolding p q r
    by (simp add: responses_def validate_post_def validate_keyed_def check_length_def toString_def)
qed

theorem validation_errors_collected_witness:
  "responses (snd (post_company (\<lambda>q v s. (Inl ''down'', s)) True (Some ''ABCDEFG'') None (Some ''   '') ())) =
     [(400, Errors [\<lparr>location = Body, field = ''companyId'', message = ''Invalid value''\<rparr>,
                    \<lparr>location = Body, field = ''companyName'', message = ''Invalid value''\<rparr>,
                    \<lparr>location = Body, field = ''companyCity'', message = ''Invalid value''\<rparr>])] \<and>
   responses (snd (patch_company (\<lambda>q v s. (Inl ''down'', s)) True ''ABCDEFG'' (Some ''Acme'') None ())) =
     [(400, Errors [\<lparr>location = Params, field = ''companyId'', message = ''ID must be between 1 and 6 characters''\<rparr>,
                    \<lparr>location = Body, field = ''companyCity'', message = ''Invalid value''\<rparr>])]"
  using validation_errors_collected[of "Some ''ABCDEFG''" None "Some ''   ''" "''ABCDEFG''" "Some ''Acme''" None
      "\<lambda>q v s. (Inl ''down'', s)" "()"]
  by (simp add: validate_post_def validate_keyed_def check_length_def isLength_def trim_def toString_def whitespace_def)

section \<open>Validation and the connection\<close>

text \<open>
  Claim C3, as amended. For every request to a mutation endpoint whose field validation
  fails, once the connection has been acquired the handler responds 400 with the list of
  errors and ends without sending any statement, the store untouched. The connection is
  acquired before the validation result is read, not after.
\<close>

theorem validation_rejected_no_statement:
  "(validate_post a b c \<noteq> [] \<longrightarrow>
      rejected_with (validate_post a b c) s (post_company db True a b c s)) \<and>
   (validate_keyed k n c' \<noteq> [] \<longrightarrow>
      rejected_with (validate_keyed k n c') s (patch_company db True k n c' s) \<and>
      rejected_with (validate_keyed k n c') s (put_company db True k n c' s)) \<and>
   (check_custCode cc \<noteq> [] \<longrightarrow>
      rejected_with (check_custCode cc) s (delete_customer db True cc s))"
  by (simp add: rejected_run rejected_with_run)

theorem validation_rejected_no_statement_witness:
  "rejected_with (validate_post None None None) ()
     (post_company (\<lambda>q v s. (Inl ''down'', s)) True None None None ()) \<and>
   rejected_with (validate_keyed ''C1'' (Some ''  '') (Some ''NY'')) ()
     (patch_company (\<lambda>q v s. (Inl ''down'', s)) True ''C1'' (Some ''  '') (Some ''NY'') ()) \<and>
   rejected_with (validate_keyed ''C1'' (Some ''  '') (Some ''NY'')) ()
     (put_company (\<lambda>q v s. (Inl ''down'', s)) True ''C1'' (Some ''  '') (Some ''NY'') ()) \<and>
   rejected_with (check_custCode ''AB'') ()
     (delete_customer (\<lambda>q v s. (Inl ''down'', s)) True ''AB'' ())"
  using validation_rejected_no_statement[of None None None "()" "\<lambda>q v s. (Inl ''down'', s)"
      "''C1''" "Some ''  ''" "Some ''NY''" "''AB''"]
  by (simp add: invalid_post_absent invalid_keyed_blank invalid_custCode_AB)

text \<open>
  The claim as the spec states it fails: a creation request without any of its members is
  rejected by validation, and its run has leased a connection.
\<close>

theorem validation_rejected_acquires_counterexample:
  "validate_post None None None \<noteq> [] \<and>
   Acquire \<in> set (snd (post_company (\<lambda>q v s. (Inl ''down'', s)) True None None None ()))"
  by (simp add: post_company_def connectToDatabase_def Let_def invalid_post_absent)

text \<open>
  Claim C2, at an input where the code departs from it: a creation request whose
  \<^verbatim>\<open>companyId\<close> has seven characters. The connection is leased, the 400 response is
  sent, and the run ends without a release.
\<close>

theorem post_company_rejected_not_released:
  "post_company db True (Some ''ABCDEFG'') (Some ''Acme'') (Some ''NY'') s =
     (s, [Acquire, Respond 400
            (Errors [\<lparr>location = Body, field = ''companyId'', message = ''Invalid value''\<rparr>])]) \<and>
   releases (snd (post_company db True (Some ''ABCDEFG'') (Some ''Acme'') (Some ''NY'') s)) = 0"
  by (simp add: post_company_def connectToDatabase_def validate_post_def check_length_def
      isLength_def trim_def toString_def whitespace_def releases_def)

text \<open>
  On the other exit paths the release runs once: whenever validation passes and the
  statement is sent, whatever the store answers.
\<close>

lemma released_once_after_statement:
  "validate_post a b c = [] \<Longrightarrow> releases (snd (post_company db True a b c s)) = 1"
  "validate_keyed k n c' = [] \<Longrightarrow> releases (snd (patch_company db True k n c' s)) = 1"
  "validate_keyed k n c' = [] \<Longrightarrow> releases (snd (put_company db True k n c' s)) = 1"
  "check_custCode cc = [] \<Longrightarrow> releases (snd (delete_customer db True cc s)) = 1"
proof -
  show "validate_post a b c = [] \<Longrightarrow> releases (snd (post_company db True a b c s)) = 1"
    by (simp add: post_company_def connectToDatabase_def Let_def releases_def
        split: prod.splits sum.splits)
  show "validate_keyed k n c' = [] \<Longrightarrow> releases (snd (patch_company db True k n c' s)) = 1"
    using validate_keyed_truthy[of k n c']
    by (simp add: patch_company_def connectToDatabase_def Let_def releases_def
        split: prod.splits sum.splits)
  show "validate_keyed k n c' = [] \<Longrightarrow> releases (snd (put_company db True k n c' s)) = 1"
    by (simp add: put_company_def connectToDatabase_def Let_def releases_def
        split: prod.splits sum.splits)
  show "check_custCode cc = [] \<Longrightarrow> releases (snd (delete_customer db True cc s)) = 1"
    by (simp add: delete_customer_def connectToDatabase_def Let_def releases_def
        split: prod.splits sum.splits)
qed

lemma not_released_after_rejection:
  "validate_post a b c \<noteq> [] \<Longrightarrow> releases (snd (post_company db True a b c s)) = 0"
  "validate_keyed k n c' \<noteq> [] \<Longrightarrow> releases (snd (patch_company db True k n c' s)) = 0"
  "validate_keyed k n c' \<noteq> [] \<Longrightarrow> releases (snd (put_company db True k n c' s)) = 0"
  "check_custCode cc \<noteq> [] \<Longrightarrow> releases (snd (delete_customer db True cc s)) = 0"
  by (simp_all add: rejected_run releases_def)

section \<open>Absent attribute members\<close>

text \<open>
  Claim C5, as amended. For the upsert both attribute members are required on input: the
  chains of \<^verbatim>\<open>companyName\<close> and \<^verbatim>\<open>companyCity\<close> run on an absent member as on the
  empty string, which is shorter than the minimum of one character. A request in which one
  or both are absent is answered 400 (once the connection has been acquired), the list of
  errors holds an entry for each absent member, and no statement is sent.
\<close>

theorem put_company_requires_attributes:
  assumes "companyName = None \<or> companyCity = None"
  shows "rejected_with (validate_keyed companyId companyName companyCity) s
           (put_company db True companyId companyName companyCity s) \<and>
         (companyName = None \<longrightarrow>
            \<lparr>location = Body, field = ''companyName'', message = ''Invalid value''\<rparr>
              \<in> set (validate_keyed companyId companyName companyCity)) \<and>
         (companyCity = None \<longrightarrow>
            \<lparr>location = Body, field = ''companyCity'', message = ''Invalid value''\<rparr>
              \<in> set (validate_keyed companyId companyName companyCity))"
proof -
  have absent: "check_length loc name (Suc 0) mx m None =
      [\<lparr>location = loc, field = name, message = m\<rparr>]" for loc name mx m
    by (simp add: check_length_def isLength_def trim_def toString_def)
  have "validate_keyed companyId companyName companyCity \<noteq> []"
    using assms by (auto simp add: validate_keyed_def absent)
  then have "rejected_with (validate_keyed companyId companyName companyCity) s
           (put_company db True companyId companyName companyCity s)"
    by (simp add: rejected_run rejected_with_run)
  then show ?thesis
    by (simp add: validate_keyed_def absent)
qed

theorem put_company_requires_attributes_witness:
  "rejected_with
     [\<lparr>location = Body, field = ''companyName'', message = ''Invalid value''\<rparr>,
      \<lparr>location = Body, field = ''companyCity'', message = ''Invalid value''\<rparr>] ()
     (put_company (\<lambda>q v s. (Inr \<lparr>affectedRows = 1, warningStatus = 0\<rparr>, s)) True
        ''C1'' None None ())"
  using put_company_requires_attributes[of None None "''C1''" "()"
      "\<lambda>q v s. (Inr \<lparr>affectedRows = 1, warningStatus = 0\<rparr>, s)"]
  by (simp add: invalid_keyed_no_attribute)

text \<open>
  The claim as the spec states it fails: an upsert without \<^verbatim>\<open>companyCity\<close> is
  rejected by validation for the absence alone.
\<close>

theorem put_company_absent_city_counterexample:
  "responses (snd (put_company (\<lambda>q v s. (Inr \<lparr>affectedRows = 1, warningStatus = 0\<rparr>, s)) True
      ''C1'' (Some ''Acme'') None ())) =
     [(400, Errors [\<lparr>location = Body, field = ''companyCity'', message = ''Invalid value''\<rparr>])]"
  by (simp add: put_company_def connectToDatabase_def Let_def invalid_keyed_no_city
      responses_def)

text \<open>
  Claim C4, at an input where the code departs from it: a partial update that supplies a
  valid \<^verbatim>\<open>companyName\<close> and no \<^verbatim>\<open>companyCity\<close>. The absent member fails its
  chain, the request is answered 400 and no statement is sent, whatever the store holds.
\<close>

theorem patch_company_one_attribute_rejected:
  "patch_company db True ''C1'' (Some ''Acme'') None s =
     (s, [Acquire, Respond 400
            (Errors [\<lparr>location = Body, field = ''companyCity'', message = ''Invalid value''\<rparr>])])"
  by (simp add: patch_company_def connectToDatabase_def Let_def invalid_keyed_no_city)

text \<open>
  Claim C10, at an input where the code departs from it: a partial update that supplies
  neither attribute. Validation rejects it first, so the body is the list of errors, not
  the single message of the handler's own check.
\<close>

theorem patch_company_no_attribute_errors_list:
  "patch_company db True ''C1'' None None s =
     (s, [Acquire, Respond 400
            (Errors [\<lparr>location = Body, field = ''companyName'', message = ''Invalid value''\<rparr>,
                     \<lparr>location = Body, field = ''companyCity'', message = ''Invalid value''\<rparr>])])"
  by (simp add: patch_company_def connectToDatabase_def Let_def invalid_keyed_no_attribute)

text \<open>
  The handler's own check is never the one that answers: a request that passes validation
  has both attributes non-empty, so no run of the handler sends the single message.
\<close>

lemma patch_company_precondition_unreachable:
  "(400, Error ''Provide at least one field to update (companyName or companyCity)'')
     \<notin> set (responses (snd (patch_company db getConnection k n c s)))"
  by (auto simp add: patch_company_def connectToDatabase_def Let_def responses_def
      dest: validate_keyed_truthy split: prod.splits sum.splits)

section \<open>The upsert on the company table\<close>

lemma keys_upsert_present:
  "k \<in> set (map COMPANY_ID tab) \<Longrightarrow>
   map COMPANY_ID (upsert k n c n' c' tab) = map COMPANY_ID tab"
  by (simp add: upsert_def)

lemma distinct_upsert:
  assumes "distinct (map COMPANY_ID tab)"
  shows "distinct (map COMPANY_ID (upsert k n c n' c' tab))"
proof (cases "k \<in> set (map COMPANY_ID tab)")
  case True
  with assms show ?thesis by (simp only: keys_upsert_present)
next
  case False
  with assms show ?thesis by (simp add: upsert_def)
qed

lemma put_company_on_store:
  assumes "validate_keyed companyId companyName companyCity = []"
  shows "fst (put_company (company_store report) True companyId companyName companyCity tab) =
         upsert (sanitized (Some companyId)) (sanitized companyName) (sanitized companyCity)
           (sanitized companyName) (sanitized companyCity) tab"
  using assms
  by (simp add: put_company_def connectToDatabase_def Let_def company_store_def put_values_def)

text \<open>
  Claim C9. An upsert on a key that is already in the table changes only the two attribute
  columns of the row with that key: every other row is as before, the key column of every
  row is as before, and the keys are still pairwise different. The key is the sanitized
  path parameter, the new attributes are the sanitized body members.
\<close>

theorem put_company_keeps_keys:
  assumes "validate_keyed companyId companyName companyCity = []"
    and "distinct (map COMPANY_ID tab)"
    and "sanitized (Some companyId) \<in> set (map COMPANY_ID tab)"
  shows "fst (put_company (company_store report) True companyId companyName companyCity tab) =
           map (\<lambda>r. if COMPANY_ID r = sanitized (Some companyId)
                     then r\<lparr>COMPANY_NAME := sanitized companyName,
                            COMPANY_CITY := sanitized companyCity\<rparr>
                     else r) tab \<and>
         map COMPANY_ID (fst (put_company (company_store report) True companyId companyName
            companyCity tab)) = map COMPANY_ID tab \<and>
         distinct (map COMPANY_ID (fst (put_company (company_store report) True companyId
            companyName companyCity tab)))"
proof -
  let ?tab' = "fst (put_company (company_store report) True companyId companyName companyCity tab)"
  have run: "?tab' = upsert (sanitized (Some companyId)) (sanitized companyName)
      (sanitized companyCity) (sanitized companyName) (sanitized companyCity) tab"
    by (rule put_company_on_store[OF assms(1)])
  have "?tab' = map (\<lambda>r. if COMPANY_ID r = sanitized (Some companyId)
                     then r\<lparr>COMPANY_NAME := sanitized companyName,
                            COMPANY_CITY := sanitized companyCity\<rparr>
                     else r) tab"
    using assms(3) by (simp add: run upsert_def)
  moreover have "map COMPANY_ID ?tab' = map COMPANY_ID tab"
    using assms(3) by (simp only: run keys_upsert_present)
  moreover have "distinct (map COMPANY_ID ?tab')"
    using assms(2) by (simp only: run distinct_upsert)
  ultimately show ?thesis by simp
qed

theorem put_company_keeps_keys_witness:
  "fst (put_company (company_store (\<lambda>tab vals. \<lparr>affectedRows = 2, warningStatus = 0\<rparr>)) True
        ''C1'' (Some ''Acme'') (Some ''NY'')
        [\<lparr>COMPANY_ID = ''C1'', COMPANY_NAME = ''Apex'', COMPANY_CITY = ''LA''\<rparr>,
         \<lparr>COMPANY_ID = ''C2'', COMPANY_NAME = ''Initech'', COMPANY_CITY = ''Austin''\<rparr>]) =
     [\<lparr>COMPANY_ID = ''C1'', COMPANY_NAME = ''Acme'', COMPANY_CITY = ''NY''\<rparr>,
      \<lparr>COMPANY_ID = ''C2'', COMPANY_NAME = ''Initech'', COMPANY_CITY = ''Austin''\<rparr>]"
  using put_company_keeps_keys[of "''C1''" "Some ''Acme''" "Some ''NY''"
        "[\<lparr>COMPANY_ID = ''C1'', COMPANY_NAME = ''Apex'', COMPANY_CITY = ''LA''\<rparr>,
         \<lparr>COMPANY_ID = ''C2'', COMPANY_NAME = ''Initech'', COMPANY_CITY = ''Austin''\<rparr>]"
        "\<lambda>tab vals. \<lparr>affectedRows = 2, warningStatus = 0\<rparr>"]
    valid_C1_Acme_NY
  by (simp add: sanitized_C1_Acme_NY)

end
